theory Spec2Isabelle
  imports Complex_Main "HOL-Library.Monad_Syntax"
begin

section \<open>Numbers\<close>

text \<open>
  The estimator is JavaScript and computes on \<^verbatim>\<open>Number\<close> values. They are modelled as
  real numbers: arithmetic is exact (IEEE-754 rounding is abstracted away), and every
  numeric input is a finite number, so that \<^verbatim>\<open>parseFloat(v)\<close> on it is the identity.

  A JavaScript division by zero does not raise: it yields \<^verbatim>\<open>Infinity\<close>, \<^verbatim>\<open>-Infinity\<close> or
  \<^verbatim>\<open>NaN\<close>. None of them is a real number, so an unguarded division is modelled as a
  partial operation: \<open>None\<close> says that the computation has left the finite numbers.
  Divisions that the source guards (the divisor is tested first) are written with the
  plain division of the reals.
\<close>

definition jsdiv :: "real \<Rightarrow> real \<Rightarrow> real option" where
  "jsdiv a b = (if b = 0 then None else Some (a / b))"

text \<open>\<^verbatim>\<open>v || d\<close> on numbers: zero is falsy, every other finite number is truthy.\<close>

definition orElse :: "real \<Rightarrow> real \<Rightarrow> real" where
  "orElse v d = (if v = 0 then d else v)"

text \<open>\<^verbatim>\<open>Math.ceil\<close> and \<^verbatim>\<open>Math.floor\<close> return Numbers.\<close>

definition Math_ceil :: "real \<Rightarrow> real" where
  "Math_ceil v = of_int \<lceil>v\<rceil>"

definition Math_floor :: "real \<Rightarrow> real" where
  "Math_floor v = of_int \<lfloor>v\<rfloor>"

text \<open>
  \<^verbatim>\<open>v % 1\<close>: the remainder of JavaScript takes the sign of the dividend, that is,
  \<open>v\<close> minus \<open>v\<close> truncated towards zero.
\<close>

definition trunc :: "real \<Rightarrow> int" where
  "trunc v = (if 0 \<le> v then \<lfloor>v\<rfloor> else \<lceil>v\<rceil>)"

definition rem1 :: "real \<Rightarrow> real" where
  "rem1 v = v - of_int (trunc v)"

section \<open>Tile estimator (calculator-logic.js)\<close>

text \<open>A wall \<^verbatim>\<open>{w, h}\<close> in metres and an opening \<^verbatim>\<open>{width, height}\<close> as \<^verbatim>\<open>calculateAll\<close>
  receives them.\<close>

record wall =
  wall_w :: real
  wall_h :: real

record opening_dims =
  width :: real
  height :: real

text \<open>The parameter object of \<^verbatim>\<open>calculateAll\<close>. \<open>wastePercent\<close> may be absent
  (\<^verbatim>\<open>undefined\<close> or \<^verbatim>\<open>null\<close>), which is \<open>None\<close>.\<close>

record tile_params =
  walls :: "wall list"
  openings :: "opening_dims list"
  tileLengthCm :: real
  tileWidthCm :: real
  groutMm :: real
  wastePercent :: "real option"
  sqmPerBox :: real

record tile_result =
  grossArea :: real
  totalDeduction :: real
  netArea :: real
  baseCount :: real
  finalCount :: real
  purchaseArea :: real
  boxCount :: real
  wasteTiles :: real

text \<open>\<^verbatim>\<open>calcTotalDeduction\<close> (lines 69-74): a left-to-right \<^verbatim>\<open>reduce\<close> from 0.\<close>

definition calcTotalDeduction :: "opening_dims list \<Rightarrow> real" where
  "calcTotalDeduction ops =
     foldl (\<lambda>sum op. sum + orElse (width op) 0 * orElse (height op) 0) 0 ops"

text \<open>
  Lines 125-127 and 131-133 apply the same rounding to \<^verbatim>\<open>countX\<close> and to \<^verbatim>\<open>countY\<close>:
  \<^verbatim>\<open>decimal = count % 1; final = decimal > 0.5 ? ceil(count) : floor(count) + 0.5;
  if (decimal === 0) final = count\<close>.
\<close>

definition halfUp :: "real \<Rightarrow> real" where
  "halfUp count =
     (let decimal = rem1 count;
          final = (if decimal > 0.5 then Math_ceil count else Math_floor count + 0.5)
      in if decimal = 0 then count else final)"

text \<open>Lines 124-136: the tiles of one wall of positive size. The two divisions by the
  tile sides are not guarded.\<close>

definition wallTileCount :: "real \<Rightarrow> real \<Rightarrow> real \<Rightarrow> real \<Rightarrow> real option" where
  "wallTileCount tLenM tWidM wW wH =
     do { countX \<leftarrow> jsdiv wW tLenM;
          countY \<leftarrow> jsdiv wH tWidM;
          Some (halfUp countX * halfUp countY) }"

text \<open>The body of the \<^verbatim>\<open>forEach\<close> (lines 116-138) on the two accumulators
  \<^verbatim>\<open>(totalBaseCount, totalGrossArea)\<close>.\<close>

definition wallStep :: "real \<Rightarrow> real \<Rightarrow> wall \<Rightarrow> real \<times> real \<Rightarrow> (real \<times> real) option" where
  "wallStep tLenM tWidM wl acc =
     (let wW = orElse (wall_w wl) 0; wH = orElse (wall_h wl) 0
      in if wW > 0 \<and> wH > 0
         then do { n \<leftarrow> wallTileCount tLenM tWidM wW wH;
                   Some (fst acc + n, snd acc + wW * wH) }
         else Some acc)"

fun forEachWall :: "real \<Rightarrow> real \<Rightarrow> wall list \<Rightarrow> real \<times> real \<Rightarrow> (real \<times> real) option" where
  "forEachWall tLenM tWidM [] acc = Some acc"
| "forEachWall tLenM tWidM (wl # wls) acc =
     (case wallStep tLenM tWidM wl acc of
        None \<Rightarrow> None
      | Some acc' \<Rightarrow> forEachWall tLenM tWidM wls acc')"

text \<open>Lines 145-148: the opening deduction on \<^verbatim>\<open>totalBaseCount\<close>.\<close>

definition deductOpenings :: "real \<Rightarrow> real \<Rightarrow> real \<Rightarrow> real \<Rightarrow> real \<Rightarrow> real option" where
  "deductOpenings tLenM tWidM totalGrossArea totalDeduction' totalBaseCount =
     (if totalGrossArea > 0 \<and> totalDeduction' > 0
      then do { tilesToSubtract \<leftarrow> jsdiv totalDeduction' (tLenM * tWidM);
                Some (max 0 (totalBaseCount - tilesToSubtract)) }
      else Some totalBaseCount)"

text \<open>Lines 107-109: the tile sides in metres and the waste percentage.\<close>

definition tLenM :: "tile_params \<Rightarrow> real" where
  "tLenM params = orElse (tileLengthCm params) 0 / 100"

definition tWidM :: "tile_params \<Rightarrow> real" where
  "tWidM params = orElse (tileWidthCm params) 0 / 100"

definition waste :: "tile_params \<Rightarrow> real" where
  "waste params = (case wastePercent params of None \<Rightarrow> 0 | Some v \<Rightarrow> orElse v 0)"

text \<open>The value of the variable \<^verbatim>\<open>totalBaseCount\<close> when line 151 reads it, with
  \<^verbatim>\<open>totalGrossArea\<close>.\<close>

definition totalBaseCount :: "tile_params \<Rightarrow> (real \<times> real) option" where
  "totalBaseCount params =
     do { acc \<leftarrow> forEachWall (tLenM params) (tWidM params) (walls params) (0, 0);
          n \<leftarrow> deductOpenings (tLenM params) (tWidM params) (snd acc)
                 (calcTotalDeduction (openings params)) (fst acc);
          Some (n, snd acc) }"

text \<open>\<^verbatim>\<open>calculateAll\<close> (lines 103-164).\<close>

definition calculateAll :: "tile_params \<Rightarrow> tile_result option" where
  "calculateAll params =
     do { tb \<leftarrow> totalBaseCount params;
          let sqmBox = orElse (sqmPerBox params) 0;
              totalGrossArea = snd tb;
              totalDeduction' = calcTotalDeduction (openings params);
              finalCount' = Math_ceil (fst tb * (1 + waste params / 100));
              purchaseArea' = finalCount' * (tLenM params * tWidM params)
          in Some \<lparr> grossArea = totalGrossArea,
                    totalDeduction = totalDeduction',
                    netArea = max 0 (totalGrossArea - totalDeduction'),
                    baseCount = Math_ceil (fst tb),
                    finalCount = finalCount',
                    purchaseArea = purchaseArea',
                    boxCount = (if sqmBox > 0 then Math_ceil (purchaseArea' / sqmBox) else 0),
                    wasteTiles = finalCount' - Math_ceil (fst tb) \<rparr> }"

section \<open>Wallpaper estimator (wallpaper-logic.js)\<close>








section \<open>Preview geometry and opening drag (app.js)\<close>

text \<open>\<^verbatim>\<open>drawWallPanel\<close> (lines 446-447) and the two pointer handlers (lines 1309-1310,
  1364-1365) each declare their own constants \<^verbatim>\<open>PAD\<close> and \<^verbatim>\<open>LABEL\<close>; so does each
  definition below.\<close>

record geom =
  scale :: real
  ox :: real
  oy :: real

text \<open>
  \<^verbatim>\<open>drawWallPanel\<close>, lines 426-456, for a canvas whose resolved pixel size is \<open>PW\<close> by
  \<open>PH\<close>: \<open>None\<close> is the early return that draws the placeholder text for a wall without
  positive size. The divisors are positive past that guard.
\<close>

definition drawWallPanel_geom :: "real \<Rightarrow> real \<Rightarrow> wall \<Rightarrow> geom option" where
  "drawWallPanel_geom PW PH wl =
     (let surfW = orElse (wall_w wl) 0; surfH = orElse (wall_h wl) 0
      in if surfW \<le> 0 \<or> surfH \<le> 0 then None
         else (let PAD = 40; LABEL = 30;
                   scale' = min ((PW - PAD * 2) / surfW) ((PH - PAD * 2 - LABEL) / surfH);
                   drawW = surfW * scale';
                   drawH = surfH * scale'
               in Some \<lparr> scale = scale',
                         ox = (PW - drawW) / 2,
                         oy = LABEL + (PH - LABEL - drawH) / 2 \<rparr>))"

text \<open>\<^verbatim>\<open>walls[wallIndex] || { w: 5, h: 3 }\<close>: an index past the end reads \<^verbatim>\<open>undefined\<close>.\<close>

definition resolveWall :: "wall list \<Rightarrow> nat \<Rightarrow> wall" where
  "resolveWall wls wallIndex =
     (if wallIndex < length wls then wls ! wallIndex else \<lparr>wall_w = 5, wall_h = 3\<rparr>)"

text \<open>The mapping the \<^verbatim>\<open>mousedown\<close> handler computes (lines 1307-1316) from the canvas's
  \<^verbatim>\<open>clientWidth\<close> and \<^verbatim>\<open>clientHeight\<close>. The divisors \<^verbatim>\<open>wall.w || 1\<close> are never 0.\<close>

definition mousedown_geom :: "real \<Rightarrow> real \<Rightarrow> wall \<Rightarrow> geom" where
  "mousedown_geom PW PH wl =
     (let PAD = 40; LABEL = 30;
          scale' = min ((PW - PAD * 2) / orElse (wall_w wl) 1)
                       ((PH - PAD * 2 - LABEL) / orElse (wall_h wl) 1)
      in \<lparr> scale = scale',
           ox = (PW - orElse (wall_w wl) 0 * scale') / 2,
           oy = LABEL + (PH - LABEL - orElse (wall_h wl) 0 * scale') / 2 \<rparr>)"

text \<open>The mapping the \<^verbatim>\<open>mousemove\<close> handler computes (lines 1362-1370).\<close>

definition mousemove_geom :: "real \<Rightarrow> real \<Rightarrow> wall \<Rightarrow> geom" where
  "mousemove_geom PW PH wl =
     (let PAD = 40; LABEL = 30;
          scale' = min ((PW - PAD * 2) / orElse (wall_w wl) 1)
                       ((PH - PAD * 2 - LABEL) / orElse (wall_h wl) 1)
      in \<lparr> scale = scale',
           ox = (PW - orElse (wall_w wl) 0 * scale') / 2,
           oy = LABEL + (PH - LABEL - orElse (wall_h wl) 0 * scale') / 2 \<rparr>)"

text \<open>Metres to pixels (lines 512-513 and 1322-1323) and pixels to metres (lines 1372-1373
  before the drag offset is subtracted); the division by the scale is not guarded.\<close>

definition forward :: "geom \<Rightarrow> real \<times> real \<Rightarrow> real \<times> real" where
  "forward g p = (ox g + fst p * scale g, oy g + snd p * scale g)"

definition inverse_px :: "geom \<Rightarrow> real \<times> real \<Rightarrow> (real \<times> real) option" where
  "inverse_px g px =
     do { mX \<leftarrow> jsdiv (fst px - ox g) (scale g);
          mY \<leftarrow> jsdiv (snd px - oy g) (scale g);
          Some (mX, mY) }"

datatype opening_type = Door | Window | Mirror

text \<open>An element of \<^verbatim>\<open>state.openings\<close>: \<^verbatim>\<open>{id, type, width, height, x, y, wallIndex}\<close>.\<close>

record wall_opening =
  op_id :: nat
  op_type :: opening_type
  op_width :: real
  op_height :: real
  op_x :: real
  op_y :: real
  op_wallIndex :: nat

text \<open>\<^verbatim>\<open>tileDragState\<close>; \<open>targetId\<close> is \<open>None\<close> for \<^verbatim>\<open>null\<close>.\<close>

record drag_state =
  targetId :: "nat option"
  isDragging :: bool
  startX :: real
  startY :: real
  drag_wallIndex :: nat

record canvas =
  clientWidth :: real
  clientHeight :: real
  rect_left :: real
  rect_top :: real

record mouse_event =
  clientX :: real
  clientY :: real

record app_state =
  st_openings :: "wall_opening list"
  st_drag :: drag_state

text \<open>The handler mutates the opening that \<^verbatim>\<open>find\<close> returned, the first one with the
  target id, where it stands in the list.\<close>

fun updateFirst :: "('a \<Rightarrow> bool) \<Rightarrow> ('a \<Rightarrow> 'a) \<Rightarrow> 'a list \<Rightarrow> 'a list" where
  "updateFirst P f [] = []"
| "updateFirst P f (v # vs) = (if P v then f v # vs else v # updateFirst P f vs)"

text \<open>
  The \<^verbatim>\<open>mousemove\<close> handler (lines 1339-1378) on the current wall list, the canvas found
  for a wall index (if any) and the event. \<open>None\<close>: the division by a zero scale has
  left the finite numbers.
\<close>

definition mousemove :: "wall list \<Rightarrow> (nat \<Rightarrow> canvas option) \<Rightarrow> mouse_event \<Rightarrow> app_state
    \<Rightarrow> app_state option" where
  "mousemove wls canvasOf e st =
     (if \<not> isDragging (st_drag st) then Some st
      else case find (\<lambda>o'. Some (op_id o') = targetId (st_drag st)) (st_openings st) of
        None \<Rightarrow> Some st
      | Some op \<Rightarrow>
         (case canvasOf (drag_wallIndex (st_drag st)) of
            None \<Rightarrow> Some st
          | Some cv \<Rightarrow>
             (let wl = resolveWall wls (drag_wallIndex (st_drag st));
                  mx = clientX e - rect_left cv;
                  my = clientY e - rect_top cv;
                  g = mousemove_geom (clientWidth cv) (clientHeight cv) wl
              in do { mX \<leftarrow> jsdiv (mx - ox g) (scale g);
                      mY \<leftarrow> jsdiv (my - oy g) (scale g);
                      let newX = mX - startX (st_drag st);
                          newY = mY - startY (st_drag st)
                      in Some (st\<lparr>st_openings :=
                           updateFirst (\<lambda>o'. Some (op_id o') = targetId (st_drag st))
                             (\<lambda>o'. o'\<lparr>op_x := max 0 (min newX (orElse (wall_w wl) 0 - op_width o')),
                                      op_y := max 0 (min newY (orElse (wall_h wl) 0 - op_height o'))\<rparr>)
                             (st_openings st)\<rparr>) })))"

text \<open>
  \<^verbatim>\<open>updateLivePreview\<close> (lines 570-571, 608-658) numbers the canvases over the walls
  of positive size only and draws canvas \<open>k\<close> with the \<open>k\<close>-th of them; \<open>None\<close> when
  there is no such canvas.
\<close>

definition validWalls :: "wall list \<Rightarrow> wall list" where
  "validWalls allWalls = filter (\<lambda>wl. wall_w wl > 0 \<and> wall_h wl > 0) allWalls"

definition updateLivePreview_geom :: "real \<Rightarrow> real \<Rightarrow> wall list \<Rightarrow> nat \<Rightarrow> geom option" where
  "updateLivePreview_geom PW PH allWalls k =
     (if k < length (validWalls allWalls)
      then drawWallPanel_geom PW PH (validWalls allWalls ! k) else None)"

section \<open>Running the tile estimation (app.js)\<close>

text \<open>The form fields \<^verbatim>\<open>runCalculation\<close> reads, each through \<^verbatim>\<open>parseFloat(..) || 0\<close>.\<close>

record dom_inputs =
  isQuickMode :: bool
  directAreaInput :: real
  tileLength :: real
  tileWidth :: real
  groutJoint :: real
  wastePct :: real
  sqmPerBoxInput :: real

text \<open>What \<^verbatim>\<open>runCalculation\<close> does with the result area: it clears it, or renders the
  object \<^verbatim>\<open>calculateAll\<close> returned.\<close>

datatype display = ClearResults | RenderTileResults "tile_result option"

text \<open>\<^verbatim>\<open>runCalculation\<close> (lines 853-906) on the form fields, the walls that
  \<^verbatim>\<open>getCurrentWalls\<close> reads and \<^verbatim>\<open>state.openings\<close>.\<close>

definition runCalculation :: "dom_inputs \<Rightarrow> wall list \<Rightarrow> wall_opening list \<Rightarrow> display" where
  "runCalculation inp currentWalls ops =
     (let finalWallsForLogic =
            (if isQuickMode inp
             then (let directArea = orElse (directAreaInput inp) 0
                   in if directArea \<le> 0 then None
                      else Some [\<lparr>wall_w = directArea, wall_h = 1\<rparr>])
             else (let wls = filter (\<lambda>wl. wall_w wl > 0 \<and> wall_h wl > 0) currentWalls
                   in if length wls = 0 then None else Some wls))
      in case finalWallsForLogic of
           None \<Rightarrow> ClearResults
         | Some fw \<Rightarrow>
             RenderTileResults (calculateAll
               \<lparr> walls = fw,
                 openings = map (\<lambda>o'. \<lparr>width = op_width o', height = op_height o'\<rparr>) ops,
                 tileLengthCm = orElse (tileLength inp) 60,
                 tileWidthCm = orElse (tileWidth inp) 30,
                 groutMm = groutJoint inp,
                 wastePercent = Some (wastePct inp),
                 sqmPerBox = orElse (sqmPerBoxInput inp) 1.44 \<rparr>))"

section \<open>Properties of the tile estimator\<close>

lemma rem1_nonneg: "0 \<le> c \<Longrightarrow> rem1 c = frac c"
  by (simp add: rem1_def trunc_def frac_def)



lemma orElse_zero: "orElse v 0 = v"
  by (simp add: orElse_def)

lemma foldl_deduction:
  "foldl (\<lambda>sum op. sum + width op * height op) a ops
     = a + (\<Sum>op\<leftarrow>ops. width op * height op)"
  by (induction ops arbitrary: a) simp_all

lemma calcTotalDeduction_sum:
  "calcTotalDeduction ops = (\<Sum>op\<leftarrow>ops. width op * height op)"
  by (simp add: calcTotalDeduction_def orElse_zero foldl_deduction)

text \<open>The wall loop leaves the finite numbers exactly when a tile side is 0 and some wall
  has positive size.\<close>

lemma wallStep_None_iff:
  "wallStep tL tW wl acc = None \<longleftrightarrow> (tL = 0 \<or> tW = 0) \<and> wall_w wl > 0 \<and> wall_h wl > 0"
  by (simp add: wallStep_def wallTileCount_def jsdiv_def Let_def orElse_zero)

lemma forEachWall_None_iff:
  "forEachWall tL tW wls acc = None \<longleftrightarrow>
     (tL = 0 \<or> tW = 0) \<and> (\<exists>wl\<in>set wls. wall_w wl > 0 \<and> wall_h wl > 0)"
proof (induction wls arbitrary: acc)
  case Nil
  show ?case by simp
next
  case (Cons wl wls)
  show ?case
  proof (cases "wallStep tL tW wl acc")
    case None
    then show ?thesis using wallStep_None_iff [of tL tW wl acc] by auto
  next
    case (Some acc')
    then have "\<not> ((tL = 0 \<or> tW = 0) \<and> wall_w wl > 0 \<and> wall_h wl > 0)"
      using wallStep_None_iff [of tL tW wl acc] by simp
    with Some Cons.IH [of acc'] show ?thesis by auto
  qed
qed

lemma wallStep_gross:
  "wallStep tL tW wl acc = Some acc' \<Longrightarrow>
     snd acc' = snd acc
       + (if wall_w wl > 0 \<and> wall_h wl > 0 then wall_w wl * wall_h wl else 0)"
  by (auto simp add: wallStep_def wallTileCount_def jsdiv_def Let_def orElse_zero
      split: if_splits)

lemma forEachWall_gross:
  "forEachWall tL tW wls acc = Some acc' \<Longrightarrow>
     snd acc' = snd acc
       + (\<Sum>wl\<leftarrow>wls. if wall_w wl > 0 \<and> wall_h wl > 0 then wall_w wl * wall_h wl else 0)"
proof (induction wls arbitrary: acc)
  case Nil
  then show ?case by simp
next
  case (Cons wl wls)
  then obtain acc1 where s: "wallStep tL tW wl acc = Some acc1"
    and r: "forEachWall tL tW wls acc1 = Some acc'"
    by (auto split: option.splits)
  from Cons.IH [OF r] wallStep_gross [OF s] show ?case by simp
qed

lemma gross_sum_pos:
  "0 < (\<Sum>wl\<leftarrow>wls. if wall_w wl > 0 \<and> wall_h wl > 0 then wall_w wl * wall_h wl else (0::real))
     \<Longrightarrow> \<exists>wl\<in>set wls. wall_w wl > 0 \<and> wall_h wl > 0"
  by (induction wls) (auto split: if_splits)

lemma forEachWall_gross_pos:
  assumes "forEachWall tL tW wls (0, 0) = Some acc'" and "0 < snd acc'"
  shows "tL \<noteq> 0 \<and> tW \<noteq> 0"
proof -
  from forEachWall_gross [OF assms(1)] assms(2)
  have "\<exists>wl\<in>set wls. wall_w wl > 0 \<and> wall_h wl > 0"
    using gross_sum_pos [of wls] by simp
  moreover from assms(1) have "forEachWall tL tW wls (0, 0) \<noteq> None" by simp
  ultimately show ?thesis using forEachWall_None_iff [of tL tW wls "(0, 0)"] by auto
qed

text \<open>
  C3. The deduction is the sum of width times height over every opening handed to
  \<^verbatim>\<open>calculateAll\<close>; an opening there is a width and a height only, so neither its position
  nor its wall can matter. With \<open>(b, g)\<close> the tile count and the gross area that the wall
  loop produced: when \<open>g > 0\<close> and the deduction is positive, the deduction divided by
  the tile area is subtracted from \<open>b\<close> and the difference is floored at 0, otherwise \<open>b\<close>
  stays; the net area is \<open>max 0 (g - deduction)\<close>. The call returns finite numbers unless
  a tile side is 0 while some wall has positive size.
\<close>

theorem opening_deduction:
  "calcTotalDeduction (openings p) = (\<Sum>op\<leftarrow>openings p. width op * height op)
   \<and> (calculateAll p = None \<longleftrightarrow>
        (tLenM p = 0 \<or> tWidM p = 0) \<and> (\<exists>wl\<in>set (walls p). wall_w wl > 0 \<and> wall_h wl > 0))
   \<and> (\<forall>b g. forEachWall (tLenM p) (tWidM p) (walls p) (0, 0) = Some (b, g) \<longrightarrow>
        totalBaseCount p =
          Some (if g > 0 \<and> calcTotalDeduction (openings p) > 0
                then max 0 (b - calcTotalDeduction (openings p) / (tLenM p * tWidM p))
                else b, g)
        \<and> (\<exists>r. calculateAll p = Some r
             \<and> grossArea r = g
             \<and> totalDeduction r = (\<Sum>op\<leftarrow>openings p. width op * height op)
             \<and> netArea r = max 0 (g - totalDeduction r)
             \<and> baseCount r = Math_ceil (if g > 0 \<and> totalDeduction r > 0
                  then max 0 (b - totalDeduction r / (tLenM p * tWidM p)) else b)))"
proof -
  let ?d = "calcTotalDeduction (openings p)"
  have tb: "totalBaseCount p =
          Some (if g > 0 \<and> ?d > 0 then max 0 (b - ?d / (tLenM p * tWidM p)) else b, g)"
    if h: "forEachWall (tLenM p) (tWidM p) (walls p) (0, 0) = Some (b, g)" for b g
  proof (cases "g > 0 \<and> ?d > 0")
    case True
    with forEachWall_gross_pos [OF h] have "tLenM p * tWidM p \<noteq> 0" by simp
    with True h show ?thesis
      by (simp add: totalBaseCount_def deductOpenings_def jsdiv_def)
  next
    case False
    with h show ?thesis
      by (auto simp add: totalBaseCount_def deductOpenings_def)
  qed
  have none: "calculateAll p = None \<longleftrightarrow>
        (tLenM p = 0 \<or> tWidM p = 0) \<and> (\<exists>wl\<in>set (walls p). wall_w wl > 0 \<and> wall_h wl > 0)"
  proof (cases "forEachWall (tLenM p) (tWidM p) (walls p) (0, 0)")
    case None
    then have "calculateAll p = None"
      by (simp add: calculateAll_def totalBaseCount_def)
    with None forEachWall_None_iff [of "tLenM p" "tWidM p" "walls p" "(0, 0)"]
    show ?thesis by simp
  next
    case (Some acc)
    then have "forEachWall (tLenM p) (tWidM p) (walls p) (0, 0) = Some (fst acc, snd acc)"
      by simp
    from tb [OF this] have "calculateAll p \<noteq> None"
      by (simp add: calculateAll_def Let_def)
    with Some forEachWall_None_iff [of "tLenM p" "tWidM p" "walls p" "(0, 0)"]
    show ?thesis by auto
  qed
  have res: "\<exists>r. calculateAll p = Some r
             \<and> grossArea r = g
             \<and> totalDeduction r = (\<Sum>op\<leftarrow>openings p. width op * height op)
             \<and> netArea r = max 0 (g - totalDeduction r)
             \<and> baseCount r = Math_ceil (if g > 0 \<and> totalDeduction r > 0
                  then max 0 (b - totalDeduction r / (tLenM p * tWidM p)) else b)"
    if h: "forEachWall (tLenM p) (tWidM p) (walls p) (0, 0) = Some (b, g)" for b g
    using tb [OF h] by (simp add: calculateAll_def Let_def calcTotalDeduction_sum)
  from tb none res calcTotalDeduction_sum show ?thesis by blast
qed

theorem opening_deduction_witness:
  "forEachWall (1 / 2) (1 / 4) [\<lparr>wall_w = 3, wall_h = 2\<rparr>] (0, 0) = Some (48, 6)
   \<and> totalBaseCount \<lparr>walls = [\<lparr>wall_w = 3, wall_h = 2\<rparr>],
        openings = [\<lparr>width = 1, height = 2\<rparr>], tileLengthCm = 50, tileWidthCm = 25,
        groutMm = 3, wastePercent = Some 0, sqmPerBox = 144 / 100\<rparr> = Some (32, 6)
   \<and> calculateAll \<lparr>walls = [\<lparr>wall_w = 3, wall_h = 2\<rparr>],
        openings = [\<lparr>width = 1, height = 2\<rparr>], tileLengthCm = 50, tileWidthCm = 25,
        groutMm = 3, wastePercent = Some 0, sqmPerBox = 144 / 100\<rparr>
      = Some \<lparr>grossArea = 6, totalDeduction = 2, netArea = 4, baseCount = 32,
           finalCount = 32, purchaseArea = 4, boxCount = 3, wasteTiles = 0\<rparr>"
  using opening_deduction [of "\<lparr>walls = [\<lparr>wall_w = 3, wall_h = 2\<rparr>],
        openings = [\<lparr>width = 1, height = 2\<rparr>], tileLengthCm = 50, tileWidthCm = 25,
        groutMm = 3, wastePercent = Some 0, sqmPerBox = 144 / 100\<rparr>"]
  by (simp add: calculateAll_def totalBaseCount_def deductOpenings_def
        calcTotalDeduction_def waste_def wallStep_def wallTileCount_def tLenM_def tWidM_def
        jsdiv_def orElse_def halfUp_def rem1_def trunc_def Math_ceil_def Math_floor_def)

section \<open>Waste factor and tile sides that are not positive\<close>

text \<open>An axis result lies between the quotient and the quotient plus a half, for a
  quotient that is not negative.\<close>

lemma halfUp_bounds:
  assumes "0 \<le> c"
  shows "c \<le> halfUp c \<and> halfUp c < c + 1 / 2"
proof -
  have f: "rem1 c = frac c" using assms by (rule rem1_nonneg)
  have c: "of_int \<lfloor>c\<rfloor> = c - frac c" by (simp add: frac_def)
  show ?thesis
  proof (cases "frac c = 0")
    case True
    then show ?thesis by (simp add: halfUp_def f)
  next
    case False
    then have pos: "0 < frac c" using frac_ge_0 [of c] by linarith
    have lt: "frac c < 1" by (rule frac_lt_1)
    from False have "c \<notin> \<int>" by (simp add: frac_eq_0_iff)
    then have ce: "of_int \<lceil>c\<rceil> = c - frac c + 1"
      using c by (simp add: ceiling_altdef frac_eq_0_iff)
    show ?thesis
      using False pos lt c ce by (simp add: halfUp_def f Math_ceil_def Math_floor_def)
  qed
qed

lemma wallStep_nonneg:
  assumes "0 < tL" and "0 < tW" and "0 \<le> fst acc"
  shows "\<exists>acc'. wallStep tL tW wl acc = Some acc' \<and> 0 \<le> fst acc'"
proof (cases "wall_w wl > 0 \<and> wall_h wl > 0")
  case True
  then have x: "0 \<le> wall_w wl / tL" and y: "0 \<le> wall_h wl / tW" using assms by simp_all
  from halfUp_bounds [OF x] x have "0 \<le> halfUp (wall_w wl / tL)" by linarith
  moreover from halfUp_bounds [OF y] y have "0 \<le> halfUp (wall_h wl / tW)" by linarith
  ultimately have "0 \<le> halfUp (wall_w wl / tL) * halfUp (wall_h wl / tW)" by simp
  with True assms show ?thesis
    by (simp add: wallStep_def wallTileCount_def jsdiv_def Let_def orElse_zero)
next
  case False
  with assms show ?thesis by (cases acc) (auto simp add: wallStep_def Let_def orElse_zero)
qed

lemma forEachWall_nonneg:
  assumes "0 < tL" and "0 < tW"
  shows "0 \<le> fst acc \<Longrightarrow> \<exists>acc'. forEachWall tL tW wls acc = Some acc' \<and> 0 \<le> fst acc'"
proof (induction wls arbitrary: acc)
  case Nil
  then show ?case by simp
next
  case (Cons wl wls)
  from wallStep_nonneg [OF assms Cons.prems] obtain acc1
    where s: "wallStep tL tW wl acc = Some acc1" and n: "0 \<le> fst acc1" by blast
  from Cons.IH [OF n] s show ?case by simp
qed

text \<open>With positive tile sides the count that line 151 reads exists and is not negative.\<close>

lemma totalBaseCount_nonneg:
  assumes "0 < tileLengthCm p" and "0 < tileWidthCm p"
  shows "\<exists>n g. totalBaseCount p = Some (n, g) \<and> 0 \<le> n"
proof -
  have tl: "0 < tLenM p" and tw: "0 < tWidM p"
    using assms by (simp_all add: tLenM_def tWidM_def orElse_zero)
  from forEachWall_nonneg [OF tl tw, of "(0, 0)" "walls p"] obtain acc
    where f: "forEachWall (tLenM p) (tWidM p) (walls p) (0, 0) = Some acc" and n: "0 \<le> fst acc"
    by auto
  from tl tw have "tLenM p * tWidM p \<noteq> 0" by simp
  with f n show ?thesis
    by (cases acc) (auto simp add: totalBaseCount_def deductOpenings_def jsdiv_def)
qed

text \<open>On a count that is not negative a waste of 0 or more never lowers the final count,
  and a waste of 0 leaves it at the rounded base count.\<close>

lemma final_ge_base:
  assumes "totalBaseCount p = Some (n, g)" and "0 \<le> n" and "0 \<le> waste p"
  shows "\<exists>r. calculateAll p = Some r
     \<and> finalCount r = Math_ceil (n * (1 + waste p / 100))
     \<and> baseCount r = Math_ceil n
     \<and> baseCount r \<le> finalCount r
     \<and> (waste p = 0 \<longrightarrow> finalCount r = baseCount r)"
proof -
  have "0 \<le> n * (waste p / 100)" using assms(2,3) by simp
  then have "n \<le> n * (1 + waste p / 100)" by (simp add: algebra_simps)
  then have "\<lceil>n\<rceil> \<le> \<lceil>n * (1 + waste p / 100)\<rceil>" by (rule ceiling_mono)
  with assms(1) show ?thesis
    by (simp add: calculateAll_def Let_def Math_ceil_def)
qed

text \<open>A waste given as 0 and a waste left out give the same result (line 109).\<close>

lemma waste_explicit_zero:
  "calculateAll (p\<lparr>wastePercent := Some 0\<rparr>) = calculateAll (p\<lparr>wastePercent := None\<rparr>)"
  by (simp add: calculateAll_def totalBaseCount_def waste_def tLenM_def tWidM_def orElse_def)

text \<open>
  C4. The specification wants a waste of 0 or more never to make the final count smaller
  than the rounded base count, for every input. One wall of 3 m by 2 m, a tile length of -50 cm,
  a tile width of 25 cm and a waste of 10 percent: the tile sides are used unguarded, the
  count is 3 / (-0.5) times 2 / 0.25, that is -48, and the final count
  \<open>ceil (-48 * 1.1) = -52\<close> is below the base count -48.
\<close>

theorem waste_negative_tile:
  "calculateAll \<lparr>walls = [\<lparr>wall_w = 3, wall_h = 2\<rparr>], openings = [],
      tileLengthCm = -50, tileWidthCm = 25, groutMm = 3, wastePercent = Some 10,
      sqmPerBox = 1.44\<rparr>
   = Some \<lparr>grossArea = 6, totalDeduction = 0, netArea = 6, baseCount = -48,
        finalCount = -52, purchaseArea = 6.5, boxCount = 5, wasteTiles = -4\<rparr>"
  by (simp add: calculateAll_def totalBaseCount_def deductOpenings_def
        calcTotalDeduction_def waste_def wallStep_def wallTileCount_def tLenM_def tWidM_def
        jsdiv_def orElse_def halfUp_def rem1_def trunc_def Math_ceil_def Math_floor_def)

text \<open>
  C6. The specification wants a tile length or width of 0 or less to make every wall
  count 0 and the count fields 0. For one wall of 3 m by 2 m and a tile width of 25 cm: a tile length
  of -50 cm gives a base count and a final count of -48, and a tile length of 0 divides
  the wall width by 0, which leaves the finite numbers.
\<close>

theorem nonpositive_tile_side:
  "calculateAll \<lparr>walls = [\<lparr>wall_w = 3, wall_h = 2\<rparr>], openings = [],
      tileLengthCm = -50, tileWidthCm = 25, groutMm = 3, wastePercent = Some 0,
      sqmPerBox = 1.44\<rparr>
   = Some \<lparr>grossArea = 6, totalDeduction = 0, netArea = 6, baseCount = -48,
        finalCount = -48, purchaseArea = 6, boxCount = 5, wasteTiles = 0\<rparr>
  \<and> calculateAll \<lparr>walls = [\<lparr>wall_w = 3, wall_h = 2\<rparr>], openings = [],
      tileLengthCm = 0, tileWidthCm = 25, groutMm = 3, wastePercent = Some 0,
      sqmPerBox = 1.44\<rparr>
   = None"
  by (simp add: calculateAll_def totalBaseCount_def deductOpenings_def
        calcTotalDeduction_def waste_def wallStep_def wallTileCount_def tLenM_def tWidM_def
        jsdiv_def orElse_def halfUp_def rem1_def trunc_def Math_ceil_def Math_floor_def)

section \<open>Bounds of the count of one wall\<close>




section \<open>Properties of the wallpaper estimator\<close>









section \<open>Properties of the preview geometry\<close>

lemma inverse_forward:
  "scale g \<noteq> 0 \<Longrightarrow> inverse_px g (forward g p) = Some p"
  by (simp add: inverse_px_def forward_def jsdiv_def)

lemma forward_inverse:
  "inverse_px g q = Some m \<Longrightarrow> forward g m = q"
  by (cases q) (auto simp add: inverse_px_def forward_def jsdiv_def split: if_splits)

lemma min_quotients_nonzero:
  fixes a b c d :: real
  assumes "a \<noteq> 0" and "b \<noteq> 0" and "0 < c" and "0 < d"
  shows "min (a / c) (b / d) \<noteq> 0"
  using assms by (simp add: min_def)

text \<open>
  C7. For a wall of positive width and height that is the wall at the canvas's index in
  the current wall list, and a canvas of \<open>PW\<close> by \<open>PH\<close> pixels: the scale that
  \<^verbatim>\<open>drawWallPanel\<close> computes is the smaller of \<open>(PW - 2 * 40) / W\<close> and
  \<open>(PH - 2 * 40 - 30) / H\<close>, the origin is \<open>((PW - W * scale) / 2,
  30 + (PH - 30 - H * scale) / 2)\<close>, and both pointer handlers compute the same scale and
  origin. The scale is not 0 when \<open>PW \<noteq> 80\<close> and \<open>PH \<noteq> 110\<close>; whenever it is not 0, the
  pointer inverse undoes the forward map at every point, and the forward map undoes the
  pointer inverse.
\<close>

theorem geometry_roundtrip:
  assumes "0 < wall_w wl" and "0 < wall_h wl" and "i < length wls" and "wls ! i = wl"
  shows "\<exists>g. drawWallPanel_geom PW PH wl = Some g
     \<and> scale g = min ((PW - 2 * 40) / wall_w wl) ((PH - 2 * 40 - 30) / wall_h wl)
     \<and> ox g = (PW - wall_w wl * scale g) / 2
     \<and> oy g = 30 + (PH - 30 - wall_h wl * scale g) / 2
     \<and> mousedown_geom PW PH (resolveWall wls i) = g
     \<and> mousemove_geom PW PH (resolveWall wls i) = g
     \<and> (PW \<noteq> 80 \<and> PH \<noteq> 110 \<longrightarrow> scale g \<noteq> 0)
     \<and> (scale g \<noteq> 0 \<longrightarrow> inverse_px g (forward g p) = Some p)
     \<and> (scale g \<noteq> 0 \<longrightarrow> (\<exists>m. inverse_px g q = Some m \<and> forward g m = q))"
proof -
  let ?s = "min ((PW - 2 * 40) / wall_w wl) ((PH - 2 * 40 - 30) / wall_h wl)"
  let ?g = "\<lparr>scale = ?s, ox = (PW - wall_w wl * ?s) / 2,
            oy = 30 + (PH - 30 - wall_h wl * ?s) / 2\<rparr>"
  have d: "drawWallPanel_geom PW PH wl = Some ?g"
    using assms(1,2) by (simp add: drawWallPanel_geom_def Let_def orElse_def)
  have r: "resolveWall wls i = wl"
    using assms(3,4) by (simp add: resolveWall_def)
  have md: "mousedown_geom PW PH (resolveWall wls i) = ?g"
    using assms(1,2) by (simp add: r mousedown_geom_def Let_def orElse_def)
  have mm: "mousemove_geom PW PH (resolveWall wls i) = ?g"
    using assms(1,2) by (simp add: r mousemove_geom_def Let_def orElse_def)
  have nz: "PW \<noteq> 80 \<and> PH \<noteq> 110 \<longrightarrow> scale ?g \<noteq> 0"
    using min_quotients_nonzero [of "PW - 2 * 40" "PH - 2 * 40 - 30" "wall_w wl" "wall_h wl"] assms(1,2)
    by simp
  have rt: "scale ?g \<noteq> 0 \<longrightarrow> inverse_px ?g (forward ?g p) = Some p"
    using inverse_forward [of ?g p] by blast
  have tr: "scale ?g \<noteq> 0 \<longrightarrow> (\<exists>m. inverse_px ?g q = Some m \<and> forward ?g m = q)"
  proof
    assume "scale ?g \<noteq> 0"
    then obtain m where m: "inverse_px ?g q = Some m"
      by (simp add: inverse_px_def jsdiv_def)
    from forward_inverse [OF m] m show "\<exists>m. inverse_px ?g q = Some m \<and> forward ?g m = q"
      by blast
  qed
  from d md mm nz rt tr show ?thesis
    by (intro exI [of _ ?g]) simp
qed

theorem geometry_roundtrip_witness:
  "(0::real) < 4 \<and> (0::real) < 2 \<and> (0::nat) < length [\<lparr>wall_w = 4, wall_h = 2\<rparr>]
   \<and> drawWallPanel_geom 400 280 \<lparr>wall_w = 4, wall_h = 2\<rparr>
       = Some \<lparr>scale = 80, ox = 40, oy = 75\<rparr>
   \<and> mousedown_geom 400 280 (resolveWall [\<lparr>wall_w = 4, wall_h = 2\<rparr>] 0)
       = \<lparr>scale = 80, ox = 40, oy = 75\<rparr>
   \<and> mousemove_geom 400 280 (resolveWall [\<lparr>wall_w = 4, wall_h = 2\<rparr>] 0)
       = \<lparr>scale = 80, ox = 40, oy = 75\<rparr>
   \<and> inverse_px \<lparr>scale = 80, ox = 40, oy = 75\<rparr>
        (forward \<lparr>scale = 80, ox = 40, oy = 75\<rparr> (1, 1 / 2)) = Some (1, 1 / 2)"
  using geometry_roundtrip [of "\<lparr>wall_w = 4, wall_h = 2\<rparr>" 0 "[\<lparr>wall_w = 4, wall_h = 2\<rparr>]"
      400 280 "(1, 1 / 2)" "(120, 115)"]
  by (auto simp add: drawWallPanel_geom_def Let_def orElse_def)

text \<open>A canvas 80 pixels wide: the scale is 0, the forward map sends every point to the
  origin and the pointer inverse divides by 0.\<close>

theorem geometry_roundtrip_counterexample:
  "drawWallPanel_geom 80 280 \<lparr>wall_w = 4, wall_h = 3\<rparr> = Some \<lparr>scale = 0, ox = 40, oy = 155\<rparr>
   \<and> forward \<lparr>scale = 0, ox = 40, oy = 155\<rparr> (1, 1) = (40, 155)
   \<and> inverse_px \<lparr>scale = 0, ox = 40, oy = 155\<rparr> (forward \<lparr>scale = 0, ox = 40, oy = 155\<rparr> (1, 1))
       \<noteq> Some (1, 1)"
  by (simp add: drawWallPanel_geom_def Let_def orElse_def forward_def
      inverse_px_def jsdiv_def)

section \<open>Properties of the opening drag\<close>

lemma find_updateFirst:
  assumes "find P vs = Some v" and "P (f v)"
  shows "find P (updateFirst P f vs) = Some (f v)"
  using assms by (induction vs) (auto split: if_splits)

lemma clamp_bounds:
  fixes n lim :: real
  shows "0 \<le> max 0 (min n lim) \<and> max 0 (min n lim) \<le> max 0 lim
     \<and> (0 \<le> lim \<longrightarrow> max 0 (min n lim) \<le> lim)"
  by (simp add: max_def min_def)

text \<open>
  C8. A move event during a drag, with the target opening in the list, a canvas for the
  dragged wall index and a mapping scale that is not 0: the handler stores a position
  with \<open>0 \<le> x \<le> max 0 (wallWidth - openingWidth)\<close> and
  \<open>0 \<le> y \<le> max 0 (wallHeight - openingHeight)\<close>, for every pointer position; \<open>x\<close> is at
  most \<open>wallWidth - openingWidth\<close> when the opening is not wider than the wall, and \<open>y\<close> at
  most \<open>wallHeight - openingHeight\<close> when it is not higher. The wall is the one at the
  dragged index, or the 5 m by 3 m default when there is none.
\<close>

theorem drag_clamp:
  assumes drag: "isDragging (st_drag st)"
    and found: "find (\<lambda>o'. Some (op_id o') = targetId (st_drag st)) (st_openings st) = Some op"
    and cv: "canvasOf (drag_wallIndex (st_drag st)) = Some cv"
    and wl: "wl = resolveWall wls (drag_wallIndex (st_drag st))"
    and sc: "scale (mousemove_geom (clientWidth cv) (clientHeight cv) wl) \<noteq> 0"
  shows "\<exists>st' op'. mousemove wls canvasOf e st = Some st'
      \<and> find (\<lambda>o'. Some (op_id o') = targetId (st_drag st)) (st_openings st') = Some op'
      \<and> op_width op' = op_width op \<and> op_height op' = op_height op
      \<and> 0 \<le> op_x op' \<and> op_x op' \<le> max 0 (wall_w wl - op_width op)
      \<and> 0 \<le> op_y op' \<and> op_y op' \<le> max 0 (wall_h wl - op_height op)
      \<and> (op_width op \<le> wall_w wl \<longrightarrow> op_x op' \<le> wall_w wl - op_width op)
      \<and> (op_height op \<le> wall_h wl \<longrightarrow> op_y op' \<le> wall_h wl - op_height op)"
proof -
  let ?P = "\<lambda>o'. Some (op_id o') = targetId (st_drag st)"
  let ?g = "mousemove_geom (clientWidth cv) (clientHeight cv) wl"
  let ?newX = "(clientX e - rect_left cv - ox ?g) / scale ?g - startX (st_drag st)"
  let ?newY = "(clientY e - rect_top cv - oy ?g) / scale ?g - startY (st_drag st)"
  let ?f = "\<lambda>o'. o'\<lparr>op_x := max 0 (min ?newX (wall_w wl - op_width o')),
                     op_y := max 0 (min ?newY (wall_h wl - op_height o'))\<rparr>"
  let ?st' = "st\<lparr>st_openings := updateFirst ?P ?f (st_openings st)\<rparr>"
  have run: "mousemove wls canvasOf e st = Some ?st'"
    using drag found cv sc wl [symmetric]
    by (simp add: mousemove_def jsdiv_def Let_def orElse_zero)
  from found have "?P op" by (auto dest: find_Some_iff [THEN iffD1])
  then have "?P (?f op)" by simp
  with found have f': "find ?P (st_openings ?st') = Some (?f op)"
    using find_updateFirst [of ?P "st_openings st" op ?f] by simp
  from run f' clamp_bounds [of ?newX "wall_w wl - op_width op"]
    clamp_bounds [of ?newY "wall_h wl - op_height op"]
  show ?thesis by (intro exI [of _ ?st'] exI [of _ "?f op"]) simp
qed

text \<open>An opening 2 m wide on a wall 1 m wide: after the move its \<open>x\<close> is 0, which is not
  at most \<open>wallWidth - openingWidth = -1\<close>.\<close>

theorem drag_clamp_counterexample:
  "mousemove [\<lparr>wall_w = 1, wall_h = 3\<rparr>]
     (\<lambda>k. Some \<lparr>clientWidth = 400, clientHeight = 280, rect_left = 0, rect_top = 0\<rparr>)
     \<lparr>clientX = 200, clientY = 150\<rparr>
     \<lparr>st_openings = [\<lparr>op_id = 1, op_type = Door, op_width = 2, op_height = 2, op_x = 0,
         op_y = 0, op_wallIndex = 0\<rparr>],
       st_drag = \<lparr>targetId = Some 1, isDragging = True, startX = 0, startY = 0,
         drag_wallIndex = 0\<rparr>\<rparr>
   = Some \<lparr>st_openings = [\<lparr>op_id = 1, op_type = Door, op_width = 2, op_height = 2, op_x = 0,
         op_y = 1, op_wallIndex = 0\<rparr>],
       st_drag = \<lparr>targetId = Some 1, isDragging = True, startX = 0, startY = 0,
         drag_wallIndex = 0\<rparr>\<rparr>
   \<and> \<not> ((0::real) \<le> 1 - 2)"
  by (simp add: mousemove_def mousemove_geom_def resolveWall_def jsdiv_def Let_def orElse_def
     )

theorem drag_clamp_witness:
  "isDragging \<lparr>targetId = Some (1::nat), isDragging = True, startX = 0, startY = 0,
       drag_wallIndex = 0\<rparr>
   \<and> mousemove [\<lparr>wall_w = 4, wall_h = 3\<rparr>]
        (\<lambda>k. Some \<lparr>clientWidth = 400, clientHeight = 280, rect_left = 0, rect_top = 0\<rparr>)
        \<lparr>clientX = 2000, clientY = -50\<rparr>
        \<lparr>st_openings = [\<lparr>op_id = 1, op_type = Door, op_width = 1, op_height = 2, op_x = 0,
            op_y = 0, op_wallIndex = 0\<rparr>],
          st_drag = \<lparr>targetId = Some 1, isDragging = True, startX = 0, startY = 0,
            drag_wallIndex = 0\<rparr>\<rparr>
      = Some \<lparr>st_openings = [\<lparr>op_id = 1, op_type = Door, op_width = 1, op_height = 2,
            op_x = 3, op_y = 0, op_wallIndex = 0\<rparr>],
          st_drag = \<lparr>targetId = Some 1, isDragging = True, startX = 0, startY = 0,
            drag_wallIndex = 0\<rparr>\<rparr>
   \<and> (3::real) \<le> 4 - 1 \<and> (0::real) \<le> 3 - 2"
proof -
  let ?cv = "\<lparr>clientWidth = 400, clientHeight = 280, rect_left = 0, rect_top = 0\<rparr>"
  let ?op = "\<lparr>op_id = 1, op_type = Door, op_width = 1, op_height = 2, op_x = 0,
            op_y = 0, op_wallIndex = 0\<rparr>"
  let ?st = "\<lparr>st_openings = [?op],
          st_drag = \<lparr>targetId = Some 1, isDragging = True, startX = 0, startY = 0,
            drag_wallIndex = 0\<rparr>\<rparr>"
  let ?wl = "\<lparr>wall_w = 4, wall_h = 3\<rparr>"
  have 1: "isDragging (st_drag ?st)" by simp
  have 2: "find (\<lambda>o'. Some (op_id o') = targetId (st_drag ?st)) (st_openings ?st) = Some ?op"
    by simp
  have 3: "(\<lambda>k::nat. Some ?cv) (drag_wallIndex (st_drag ?st)) = Some ?cv" by simp
  have 4: "?wl = resolveWall [?wl] (drag_wallIndex (st_drag ?st))"
    by (simp add: resolveWall_def)
  have 5: "scale (mousemove_geom (clientWidth ?cv) (clientHeight ?cv) ?wl) \<noteq> 0"
    by (simp add: mousemove_geom_def Let_def orElse_def)
  from drag_clamp [OF 1 2 3 4 5, of "\<lparr>clientX = 2000, clientY = -50\<rparr>"]
  show ?thesis
    by (simp add: mousemove_def mousemove_geom_def resolveWall_def jsdiv_def Let_def
        orElse_def)
qed

section \<open>Properties of running the tile estimation\<close>

lemma calculateAll_finite:
  assumes "tLenM p \<noteq> 0" and "tWidM p \<noteq> 0"
  shows "\<exists>r. calculateAll p = Some r \<and> totalDeduction r = calcTotalDeduction (openings p)"
proof -
  from assms forEachWall_None_iff [of "tLenM p" "tWidM p" "walls p" "(0, 0)"]
  obtain acc where f: "forEachWall (tLenM p) (tWidM p) (walls p) (0, 0) = Some acc"
    by auto
  from assms have "tLenM p * tWidM p \<noteq> 0" by simp
  with f show ?thesis
    by (simp add: calculateAll_def totalBaseCount_def deductOpenings_def jsdiv_def Let_def)
qed

lemma map_dims_wallIndex:
  "map (\<lambda>o'. \<lparr>width = op_width o', height = op_height o'\<rparr>)
       (map (\<lambda>o'. o'\<lparr>op_wallIndex := f o'\<rparr>) ops)
   = map (\<lambda>o'. \<lparr>width = op_width o', height = op_height o'\<rparr>) ops"
  by (induction ops) simp_all

text \<open>
  C9. Running the estimation never fails and never leaves the finite numbers: it clears
  the results or renders a result. An opening whose wall index resolves to no wall is not
  excluded: the rendered deduction is the sum of width times height over every opening of
  the state, and the wall indices of the openings have no influence on the outcome.
\<close>

theorem orphaned_opening_counted:
  "runCalculation inp wls ops \<noteq> RenderTileResults None
   \<and> (\<forall>r. runCalculation inp wls ops = RenderTileResults (Some r) \<longrightarrow>
         totalDeduction r = (\<Sum>o'\<leftarrow>ops. op_width o' * op_height o'))
   \<and> runCalculation inp wls (map (\<lambda>o'. o'\<lparr>op_wallIndex := f o'\<rparr>) ops)
       = runCalculation inp wls ops"
proof -
  let ?dims = "map (\<lambda>o'. \<lparr>width = op_width o', height = op_height o'\<rparr>) ops"
  have fin: "\<exists>r. calculateAll
               \<lparr> walls = fw, openings = ?dims,
                 tileLengthCm = orElse (tileLength inp) 60,
                 tileWidthCm = orElse (tileWidth inp) 30,
                 groutMm = groutJoint inp,
                 wastePercent = Some (wastePct inp),
                 sqmPerBox = orElse (sqmPerBoxInput inp) 1.44 \<rparr> = Some r
             \<and> totalDeduction r = (\<Sum>o'\<leftarrow>ops. op_width o' * op_height o')" for fw
  proof -
    let ?p = "\<lparr> walls = fw, openings = ?dims,
                 tileLengthCm = orElse (tileLength inp) 60,
                 tileWidthCm = orElse (tileWidth inp) 30,
                 groutMm = groutJoint inp,
                 wastePercent = Some (wastePct inp),
                 sqmPerBox = orElse (sqmPerBoxInput inp) 1.44 \<rparr>"
    have "tLenM ?p \<noteq> 0" and "tWidM ?p \<noteq> 0"
      by (simp_all add: tLenM_def tWidM_def orElse_def)
    from calculateAll_finite [OF this] obtain r
      where r: "calculateAll ?p = Some r"
        and d: "totalDeduction r = calcTotalDeduction (openings ?p)" by blast
    have "calcTotalDeduction (openings ?p) = (\<Sum>o'\<leftarrow>ops. op_width o' * op_height o')"
      by (simp add: calcTotalDeduction_sum comp_def)
    with r d show ?thesis by simp
  qed
  have cases: "runCalculation inp wls ops = ClearResults
      \<or> (\<exists>fw. runCalculation inp wls ops = RenderTileResults (calculateAll
               \<lparr> walls = fw, openings = ?dims,
                 tileLengthCm = orElse (tileLength inp) 60,
                 tileWidthCm = orElse (tileWidth inp) 30,
                 groutMm = groutJoint inp,
                 wastePercent = Some (wastePct inp),
                 sqmPerBox = orElse (sqmPerBoxInput inp) 1.44 \<rparr>))"
    unfolding runCalculation_def Let_def
    by (cases "isQuickMode inp") (auto intro!: exI)
  have a: "runCalculation inp wls ops \<noteq> RenderTileResults None"
  proof (rule disjE [OF cases])
    assume "runCalculation inp wls ops = ClearResults"
    then show ?thesis by simp
  next
    assume "\<exists>fw. runCalculation inp wls ops = RenderTileResults (calculateAll
               \<lparr> walls = fw, openings = ?dims,
                 tileLengthCm = orElse (tileLength inp) 60,
                 tileWidthCm = orElse (tileWidth inp) 30,
                 groutMm = groutJoint inp,
                 wastePercent = Some (wastePct inp),
                 sqmPerBox = orElse (sqmPerBoxInput inp) 1.44 \<rparr>)"
    then obtain fw where "runCalculation inp wls ops = RenderTileResults (calculateAll
               \<lparr> walls = fw, openings = ?dims,
                 tileLengthCm = orElse (tileLength inp) 60,
                 tileWidthCm = orElse (tileWidth inp) 30,
                 groutMm = groutJoint inp,
                 wastePercent = Some (wastePct inp),
                 sqmPerBox = orElse (sqmPerBoxInput inp) 1.44 \<rparr>)" ..
    with fin [of fw] show ?thesis by auto
  qed
  have b: "totalDeduction r = (\<Sum>o'\<leftarrow>ops. op_width o' * op_height o')"
    if h: "runCalculation inp wls ops = RenderTileResults (Some r)" for r
  proof (rule disjE [OF cases])
    assume "runCalculation inp wls ops = ClearResults"
    with h show ?thesis by simp
  next
    assume "\<exists>fw. runCalculation inp wls ops = RenderTileResults (calculateAll
               \<lparr> walls = fw, openings = ?dims,
                 tileLengthCm = orElse (tileLength inp) 60,
                 tileWidthCm = orElse (tileWidth inp) 30,
                 groutMm = groutJoint inp,
                 wastePercent = Some (wastePct inp),
                 sqmPerBox = orElse (sqmPerBoxInput inp) 1.44 \<rparr>)"
    then obtain fw where "runCalculation inp wls ops = RenderTileResults (calculateAll
               \<lparr> walls = fw, openings = ?dims,
                 tileLengthCm = orElse (tileLength inp) 60,
                 tileWidthCm = orElse (tileWidth inp) 30,
                 groutMm = groutJoint inp,
                 wastePercent = Some (wastePct inp),
                 sqmPerBox = orElse (sqmPerBoxInput inp) 1.44 \<rparr>)" ..
    with fin [of fw] h show ?thesis by auto
  qed
  have c: "runCalculation inp wls (map (\<lambda>o'. o'\<lparr>op_wallIndex := f o'\<rparr>) ops)
       = runCalculation inp wls ops"
    unfolding runCalculation_def map_dims_wallIndex by (rule refl)
  from a b c show ?thesis by blast
qed

theorem orphaned_opening_counted_witness:
  "runCalculation
     \<lparr>isQuickMode = False, directAreaInput = 0, tileLength = 50, tileWidth = 25,
       groutJoint = 3, wastePct = 0, sqmPerBoxInput = 144 / 100\<rparr>
     [\<lparr>wall_w = 3, wall_h = 2\<rparr>]
     [\<lparr>op_id = 1, op_type = Door, op_width = 1, op_height = 2, op_x = 0, op_y = 0,
        op_wallIndex = 0\<rparr>]
   = RenderTileResults (Some \<lparr>grossArea = 6, totalDeduction = 2, netArea = 4, baseCount = 32,
        finalCount = 32, purchaseArea = 4, boxCount = 3, wasteTiles = 0\<rparr>)
   \<and> (2::real) = 1 * 2 + 0"
  using orphaned_opening_counted [of
     "\<lparr>isQuickMode = False, directAreaInput = 0, tileLength = 50, tileWidth = 25,
       groutJoint = 3, wastePct = 0, sqmPerBoxInput = 144 / 100\<rparr>"
     "[\<lparr>wall_w = 3, wall_h = 2\<rparr>]"
     "[\<lparr>op_id = 1, op_type = Door, op_width = 1, op_height = 2, op_x = 0, op_y = 0,
        op_wallIndex = 0\<rparr>]" "\<lambda>o'. 0"]
  by (simp add: runCalculation_def calculateAll_def totalBaseCount_def deductOpenings_def
        calcTotalDeduction_def waste_def wallStep_def wallTileCount_def tLenM_def tWidM_def
        jsdiv_def orElse_def halfUp_def rem1_def trunc_def Math_ceil_def Math_floor_def)

text \<open>One wall and one opening whose wall index 5 resolves to no wall: its 2 square metres
  are deducted and the count falls from 48 to 32.\<close>

theorem orphaned_opening_counted_counterexample:
  "\<not> op_wallIndex \<lparr>op_id = 1, op_type = Door, op_width = 1, op_height = 2, op_x = 0,
        op_y = 0, op_wallIndex = 5\<rparr> < length [\<lparr>wall_w = 3, wall_h = 2\<rparr>]
   \<and> runCalculation
     \<lparr>isQuickMode = False, directAreaInput = 0, tileLength = 50, tileWidth = 25,
       groutJoint = 3, wastePct = 0, sqmPerBoxInput = 144 / 100\<rparr>
     [\<lparr>wall_w = 3, wall_h = 2\<rparr>]
     [\<lparr>op_id = 1, op_type = Door, op_width = 1, op_height = 2, op_x = 0, op_y = 0,
        op_wallIndex = 5\<rparr>]
   = RenderTileResults (Some \<lparr>grossArea = 6, totalDeduction = 2, netArea = 4, baseCount = 32,
        finalCount = 32, purchaseArea = 4, boxCount = 3, wasteTiles = 0\<rparr>)
   \<and> runCalculation
     \<lparr>isQuickMode = False, directAreaInput = 0, tileLength = 50, tileWidth = 25,
       groutJoint = 3, wastePct = 0, sqmPerBoxInput = 144 / 100\<rparr>
     [\<lparr>wall_w = 3, wall_h = 2\<rparr>]
     []
   = RenderTileResults (Some \<lparr>grossArea = 6, totalDeduction = 0, netArea = 6, baseCount = 48,
        finalCount = 48, purchaseArea = 6, boxCount = 5, wasteTiles = 0\<rparr>)"
  by (simp add: runCalculation_def calculateAll_def totalBaseCount_def deductOpenings_def
        calcTotalDeduction_def waste_def wallStep_def wallTileCount_def tLenM_def tWidM_def
        jsdiv_def orElse_def halfUp_def rem1_def trunc_def Math_ceil_def Math_floor_def)

section \<open>The wall that a pointer handler reads\<close>

text \<open>
  The handlers read the wall at the canvas's index in the full wall list, the preview
  draws the wall at that index among the walls of positive size. They are the same wall
  when every wall before it has positive size; after a wall without size they differ,
  and so do the two mappings.
\<close>

lemma handler_wall_all_valid:
  assumes "validWalls wls = wls" and "k < length wls"
  shows "updateLivePreview_geom PW PH wls k = drawWallPanel_geom PW PH (resolveWall wls k)"
  using assms by (simp add: updateLivePreview_geom_def resolveWall_def)

lemma handler_wall_after_invalid:
  "updateLivePreview_geom 400 280 [\<lparr>wall_w = 0, wall_h = 0\<rparr>, \<lparr>wall_w = 4, wall_h = 2\<rparr>] 0
     = Some \<lparr>scale = 80, ox = 40, oy = 75\<rparr>
   \<and> mousedown_geom 400 280
        (resolveWall [\<lparr>wall_w = 0, wall_h = 0\<rparr>, \<lparr>wall_w = 4, wall_h = 2\<rparr>] 0)
     = \<lparr>scale = 170, ox = 200, oy = 155\<rparr>"
  by (simp add: updateLivePreview_geom_def validWalls_def drawWallPanel_geom_def
      mousedown_geom_def resolveWall_def Let_def orElse_def)

end
